theory Spec2Isabelle
  imports Complex_Main "HOL-Library.Log_Nat"
begin

section \<open>Data model\<close>

text \<open>
  The types of \<^verbatim>\<open>types.ts\<close> and of the response schema
  \<^verbatim>\<open>RESPONSE_SCHEMA\<close> of the service module.

  A JavaScript string is the list of its UTF-16 code units, each a number below 65536;
  \<open>js\<close> turns a literal of ASCII characters into such a string.

  A JavaScript \<^verbatim>\<open>number\<close> is an IEEE 754 double; a finite double is modelled by the
  rational it denotes, and the arithmetic operations round their exact result to the
  nearest double (section on built-ins).  \<^verbatim>\<open>NaN\<close>, the infinities (results beyond the
  largest finite double) and the sign of zero are not part of the model.
\<close>

type_synonym js_string = "nat list"

definition js :: "string \<Rightarrow> js_string" where
  "js s = map of_char s"

datatype risk_level = SAFE | CAUTION | SUSPICIOUS | DANGEROUS | CRITICAL

datatype flag_severity = LOW | MEDIUM | HIGH | CRITICAL_SEVERITY

record PropagandaFlag =
  technique :: js_string
  description :: js_string
  severity :: flag_severity
  location :: "js_string option"

text \<open>
  What \<^verbatim>\<open>JSON.parse(geminiResponse.text)\<close> yields: exactly the properties of
  \<^verbatim>\<open>RESPONSE_SCHEMA\<close>; \<^verbatim>\<open>narrativeStrategy\<close> and \<^verbatim>\<open>emotionalTriggers\<close> are not
  in its \<^verbatim>\<open>required\<close> list.
\<close>

record Assessment =
  riskScore :: rat
  riskLevel :: risk_level
  summary :: js_string
  flags :: "PropagandaFlag list"
  narrativeStrategy :: "js_string option"
  emotionalTriggers :: "js_string list option"

text \<open>\<^verbatim>\<open>interface AnalysisResult\<close>: the assessment plus the fields the service adds.\<close>

record AnalysisResult = Assessment +
  fusionScore :: rat
  visualIntegrityScore :: "rat option"
  visualIntegrityWarning :: "js_string option"
  rebuttal :: "js_string option"

text \<open>The browser's \<^verbatim>\<open>File\<close>: the properties the code reads.\<close>

record File =
  file_name :: js_string
  file_size :: nat
  file_type :: js_string

section \<open>Collaborators and effects\<close>

text \<open>One element of the \<^verbatim>\<open>parts\<close> array sent to the model.\<close>

datatype part = TextPart js_string | InlineData js_string js_string

text \<open>
  The outcome of one \<^verbatim>\<open>ai.models.generateContent\<close> call: the promise rejects, or it
  resolves to a response whose \<^verbatim>\<open>text\<close> may be undefined.
\<close>

datatype gen_outcome = Throws | Response "js_string option"

text \<open>
  What \<^verbatim>\<open>analyzeContent\<close> can reject with: an \<^verbatim>\<open>Error\<close> with its message, or the
  event that \<^verbatim>\<open>fileToBase64\<close> passes to \<^verbatim>\<open>reject\<close>.
\<close>

datatype js_error = Error js_string | ReaderRejected

text \<open>
  The calls that leave the function, in the order they are started.  Logging with
  \<^verbatim>\<open>console.error\<close> and the delay inside \<^verbatim>\<open>checkDeepfake\<close> change no result
  and are left out.
\<close>

datatype call =
    ReadAsDataURL File
  | AnalysisRequest "part list"
  | DeepfakeCheck File
  | RebuttalRequest js_string

text \<open>
  Everything outside the code that a run depends on: the environment variable, the file
  reader, the two answers of the generative service, the JSON parser and the value that
  \<^verbatim>\<open>Math.random()\<close> returns.
\<close>

record World =
  API_KEY :: "js_string option"
  readAsDataURL :: "File \<Rightarrow> js_string option"
  analysis_response :: "part list \<Rightarrow> gen_outcome"
  JSON_parse :: "js_string \<Rightarrow> Assessment option"
  Math_random :: rat
  rebuttal_response :: "js_string \<Rightarrow> gen_outcome"

section \<open>JavaScript built-ins\<close>

text \<open>Truthiness of an optional string: \<^verbatim>\<open>undefined\<close> and \<^verbatim>\<open>""\<close> are falsy.\<close>

definition truthy :: "js_string option \<Rightarrow> bool" where
  "truthy s = (case s of None \<Rightarrow> False | Some t \<Rightarrow> t \<noteq> [])"

text \<open>\<^verbatim>\<open>a || b\<close> on strings.\<close>

definition or_else :: "js_string \<Rightarrow> js_string \<Rightarrow> js_string" where
  "or_else a b = (if a \<noteq> [] then a else b)"

text \<open>
  Rounding a rational to the nearest double.  \<open>exponent x\<close> is the \<open>e\<close> with
  \<open>2^e \<le> |x| < 2^(e+1)\<close>; the doubles around \<open>x\<close> are the multiples of \<open>quantum x\<close>,
  which is \<open>2^(e-52)\<close> for a normal and \<open>2^(-1074)\<close> for a subnormal magnitude; ties go
  to the even multiple.
\<close>

definition round_half_even :: "rat \<Rightarrow> int" where
  "round_half_even x =
     (let f = \<lfloor>x\<rfloor>; r = x - of_int f
      in if r < 1 / 2 then f else if 1 / 2 < r then f + 1 else if even f then f else f + 1)"

definition exponent :: "rat \<Rightarrow> int" where
  "exponent x =
     (case quotient_of \<bar>x\<bar> of
        (p, q) \<Rightarrow> (let e = bitlen p - bitlen q in if 2 powi e \<le> \<bar>x\<bar> then e else e - 1))"

definition quantum :: "rat \<Rightarrow> rat" where
  "quantum x = 2 powi (max (exponent x) (- 1022) - 52)"

definition to_double :: "rat \<Rightarrow> rat" where
  "to_double x = of_int (round_half_even (x / quantum x)) * quantum x"

definition is_double :: "rat \<Rightarrow> bool" where
  "is_double x = (to_double x = x)"

text \<open>The operators \<^verbatim>\<open>+\<close>, \<^verbatim>\<open>-\<close>, \<^verbatim>\<open>*\<close> and \<^verbatim>\<open>/\<close> on numbers.\<close>

definition js_add :: "rat \<Rightarrow> rat \<Rightarrow> rat" where
  "js_add a b = to_double (a + b)"

definition js_sub :: "rat \<Rightarrow> rat \<Rightarrow> rat" where
  "js_sub a b = to_double (a - b)"

definition js_mul :: "rat \<Rightarrow> rat \<Rightarrow> rat" where
  "js_mul a b = to_double (a * b)"

definition js_div :: "rat \<Rightarrow> rat \<Rightarrow> rat" where
  "js_div a b = to_double (a / b)"

text \<open>\<^verbatim>\<open>Math.floor\<close> and \<^verbatim>\<open>Math.round\<close> are exact on a double.\<close>

definition Math_floor :: "rat \<Rightarrow> int" where
  "Math_floor x = \<lfloor>x\<rfloor>"

text \<open>
  \<^verbatim>\<open>Math.round\<close>: the closest integer, the one nearer to plus infinity of two equally
  close ones.
\<close>

definition Math_round :: "rat \<Rightarrow> int" where
  "Math_round x = \<lfloor>x + 1 / 2\<rfloor>"

text \<open>
  \<^verbatim>\<open>String.prototype.trim\<close> removes white space and line terminators from both ends:
  tab, line feed, vertical tab, form feed, carriage return, space, no-break space
  (U+00A0), U+1680, U+2000 to U+200A, line and paragraph separator (U+2028, U+2029),
  U+202F, U+205F, U+3000 and the byte order mark (U+FEFF).
\<close>

definition is_whitespace :: "nat \<Rightarrow> bool" where
  "is_whitespace c =
     (c \<in> set [0x0009, 0x000A, 0x000B, 0x000C, 0x000D, 0x0020, 0x00A0, 0x1680,
                 0x2028, 0x2029, 0x202F, 0x205F, 0x3000, 0xFEFF]
      \<or> (0x2000 \<le> c \<and> c \<le> 0x200A))"

definition trim :: "js_string \<Rightarrow> js_string" where
  "trim s = rev (dropWhile is_whitespace (rev (dropWhile is_whitespace s)))"


section \<open>The service module\<close>

text \<open>
  \<^verbatim>\<open>checkDeepfake\<close>: \<^verbatim>\<open>Math.floor(Math.random() * (99 - 50 + 1)) + 50\<close>; the file is
  not looked at.
\<close>

definition checkDeepfake :: "World \<Rightarrow> File \<Rightarrow> rat" where
  "checkDeepfake w file =
     js_add (of_int (Math_floor (js_mul (Math_random w) (js_add (js_sub 99 50) 1)))) 50"

text \<open>The template literal of \<^verbatim>\<open>generateRebuttal\<close>.\<close>

definition rebuttal_prompt :: "js_string \<Rightarrow> js_string" where
  "rebuttal_prompt context =
     (js ''Generate a sharp, three-sentence rebuttal based on general knowledge and verified facts refuting the following propaganda narrative: '')
     @ [0x22] @ context @ [0x22] @ (js ''. '') @ [0x0A]
     @ (js ''      Focus on objective reality and logic. Do not preach, just state the facts that counter the claim.'')"

text \<open>
  \<^verbatim>\<open>generateRebuttal\<close>: the whole body is inside \<^verbatim>\<open>try\<close>, so it always returns a
  string.
\<close>

definition generateRebuttal :: "World \<Rightarrow> js_string \<Rightarrow> js_string" where
  "generateRebuttal w context =
     (case rebuttal_response w (rebuttal_prompt context) of
        Throws \<Rightarrow> (js ''Could not generate rebuttal at this time.'')
      | Response None \<Rightarrow> (js ''Rebuttal generation unavailable.'')
      | Response (Some text) \<Rightarrow> or_else text (js ''Rebuttal generation unavailable.''))"

text \<open>\<^verbatim>\<open>fileToBase64\<close>: resolves with the data, or rejects when the reader fails.\<close>

definition fileToBase64 :: "World \<Rightarrow> File \<Rightarrow> js_string option" where
  "fileToBase64 w file = readAsDataURL w file"

text \<open>The text part built from the caption (first statements of \<^verbatim>\<open>analyzeContent\<close>).\<close>

definition caption_parts :: "js_string \<Rightarrow> part list" where
  "caption_parts caption =
     (if trim caption \<noteq> []
      then [TextPart ((js ''Analyze this social media caption: '') @ [0x22] @ caption @ [0x22])]
      else [])"

text \<open>
  The \<^verbatim>\<open>if (file)\<close> block: read the file and append the inline part.  A failing read
  rejects the whole call, outside the \<^verbatim>\<open>try\<close>.
\<close>

definition add_file_part :: "World \<Rightarrow> File option \<Rightarrow> part list \<Rightarrow> (js_error + part list) \<times> call list" where
  "add_file_part w file parts =
     (case file of
        None \<Rightarrow> (Inr parts, [])
      | Some f \<Rightarrow>
          (case fileToBase64 w f of
             None \<Rightarrow> (Inl ReaderRejected, [ReadAsDataURL f])
           | Some base64Data \<Rightarrow>
               (Inr (parts @ [InlineData (file_type f) base64Data]), [ReadAsDataURL f])))"

text \<open>
  The calls started at the top of the \<^verbatim>\<open>try\<close> block: the analysis request, and the
  deepfake check when there is a file.  Both are started before \<^verbatim>\<open>Promise.all\<close> is awaited.
\<close>

definition started_tasks :: "File option \<Rightarrow> part list \<Rightarrow> call list" where
  "started_tasks file parts =
     AnalysisRequest parts # (case file of None \<Rightarrow> [] | Some f \<Rightarrow> [DeepfakeCheck f])"

text \<open>
  From \<^verbatim>\<open>Promise.all\<close> to \<^verbatim>\<open>JSON.parse\<close>: \<^verbatim>\<open>None\<close> when anything throws (a rejected
  request, no response text, text that does not parse), else the parsed assessment and
  \<^verbatim>\<open>deepfakeScore\<close>, which is defined exactly when there is a file.
\<close>

definition await_results :: "World \<Rightarrow> File option \<Rightarrow> part list \<Rightarrow> (Assessment \<times> rat option) option" where
  "await_results w file parts =
     (let deepfakeScore = map_option (checkDeepfake w) file
      in case analysis_response w parts of
           Throws \<Rightarrow> None
         | Response None \<Rightarrow> None
         | Response (Some text) \<Rightarrow>
             if text = [] then None
             else (case JSON_parse w text of
                     None \<Rightarrow> None
                   | Some result \<Rightarrow> Some (result, deepfakeScore)))"

text \<open>
  \<^verbatim>\<open>JSON.parse(...) as AnalysisResult\<close> followed by \<^verbatim>\<open>let fusionScore = result.riskScore\<close>:
  the added optional fields are unset.  The field \<open>fusionScore\<close> of the record carries the
  local variable \<^verbatim>\<open>fusionScore\<close>, which the code stores into the object as the last step.
\<close>

definition as_AnalysisResult :: "Assessment \<Rightarrow> AnalysisResult" where
  "as_AnalysisResult parsed =
     \<lparr> riskScore = riskScore parsed, riskLevel = riskLevel parsed, summary = summary parsed,
       flags = flags parsed, narrativeStrategy = narrativeStrategy parsed,
       emotionalTriggers = emotionalTriggers parsed,
       fusionScore = riskScore parsed, visualIntegrityScore = None,
       visualIntegrityWarning = None, rebuttal = None \<rparr>"

text \<open>The block under \<^verbatim>\<open>FUSION SCORE LOGIC\<close>, up to \<^verbatim>\<open>result.fusionScore = fusionScore\<close>.\<close>

definition fuse :: "Assessment \<Rightarrow> rat option \<Rightarrow> AnalysisResult" where
  "fuse parsed deepfakeScore =
     (let result = as_AnalysisResult parsed
      in case deepfakeScore of
           None \<Rightarrow> result
         | Some d \<Rightarrow>
             (let manipulationRisk = js_sub 100 d;
                  result = result\<lparr>fusionScore :=
                             of_int (Math_round (js_div (js_add (riskScore result) manipulationRisk) 2))\<rparr>;
                  result = result\<lparr>visualIntegrityScore := Some d\<rparr>;
                  result = (if d < 70
                            then result\<lparr>visualIntegrityWarning := Some (js ''Potential AI Artifacts Detected'')\<rparr>
                            else result);
                  result = (if d < 70 \<and> riskScore result > 85
                            then result\<lparr>riskLevel := CRITICAL\<rparr>
                            else result)
              in result))"

text \<open>The block under \<^verbatim>\<open>Generate Rebuttal if Critical\<close>.\<close>

definition rebuttal_stage :: "World \<Rightarrow> js_string \<Rightarrow> AnalysisResult \<Rightarrow> AnalysisResult \<times> call list" where
  "rebuttal_stage w caption result =
     (if riskLevel result = CRITICAL
      then (let contextForRebuttal = or_else (summary result) (or_else caption (js ''The uploaded media content.''))
            in (result\<lparr>rebuttal := Some (generateRebuttal w contextForRebuttal)\<rparr>,
                [RebuttalRequest (rebuttal_prompt contextForRebuttal)]))
      else (result, []))"

text \<open>The \<^verbatim>\<open>try\<close>/\<^verbatim>\<open>catch\<close> of \<^verbatim>\<open>analyzeContent\<close>: every exception becomes one error.\<close>

definition try_block :: "World \<Rightarrow> File option \<Rightarrow> js_string \<Rightarrow> part list \<Rightarrow> (js_error + AnalysisResult) \<times> call list" where
  "try_block w file caption parts =
     (case await_results w file parts of
        None \<Rightarrow>
          (Inl (Error (js ''Failed to analyze content. The model may have been blocked or the input format is invalid.'')),
           started_tasks file parts)
      | Some (parsed, deepfakeScore) \<Rightarrow>
          (case rebuttal_stage w caption (fuse parsed deepfakeScore) of
             (result, calls) \<Rightarrow> (Inr result, started_tasks file parts @ calls)))"

text \<open>\<^verbatim>\<open>analyzeContent\<close>: the outcome and the calls made, in order.\<close>

definition analyzeContent :: "World \<Rightarrow> File option \<Rightarrow> js_string \<Rightarrow> (js_error + AnalysisResult) \<times> call list" where
  "analyzeContent w file caption =
     (if \<not> truthy (API_KEY w) then (Inl (Error (js ''API Key is missing.'')), [])
      else
        (case add_file_part w file (caption_parts caption) of
           (Inl e, calls) \<Rightarrow> (Inl e, calls)
         | (Inr parts, calls) \<Rightarrow>
             if length parts = 0
             then (Inl (Error (js ''Please provide at least a file or a caption to analyze.'')), calls)
             else (case try_block w file caption parts of
                     (outcome, calls') \<Rightarrow> (outcome, calls @ calls'))))"

section \<open>The upload component\<close>





section \<open>Notions of the specification\<close>


text \<open>
  The context of a rebuttal by priority, as the specification words it: the summary if
  non-empty, else the caption if non-empty, else the fixed fallback.
\<close>

definition context_by_priority :: "js_string \<Rightarrow> js_string \<Rightarrow> js_string" where
  "context_by_priority summary_text caption =
     (if summary_text \<noteq> [] then summary_text
      else if caption \<noteq> [] then caption
      else (js ''The uploaded media content.''))"

text \<open>A caption that is empty or consists of white space only.\<close>

definition blank :: "js_string \<Rightarrow> bool" where
  "blank caption = list_all is_whitespace caption"


section \<open>Sample inputs\<close>


definition sample_upload :: "nat \<Rightarrow> js_string \<Rightarrow> File" where
  "sample_upload bytes mime = \<lparr> file_name = (js ''upload''), file_size = bytes, file_type = mime \<rparr>"

definition sample_file :: File where
  "sample_file = \<lparr> file_name = (js ''clip.png''), file_size = 2048, file_type = (js ''image/png'') \<rparr>"

definition sample_assessment :: "rat \<Rightarrow> risk_level \<Rightarrow> Assessment" where
  "sample_assessment score level =
     \<lparr> riskScore = score, riskLevel = level, summary = (js ''Fear appeal''), flags = [],
       narrativeStrategy = None, emotionalTriggers = None \<rparr>"

text \<open>
  A world with stubbed collaborators: the analysis always answers with text that parses to
  the given assessment, \<^verbatim>\<open>Math.random()\<close> returns the given value, and the rebuttal
  request has the given outcome.
\<close>

definition stub_world :: "js_string option \<Rightarrow> rat \<Rightarrow> Assessment \<Rightarrow> gen_outcome \<Rightarrow> World" where
  "stub_world key rnd a rb =
     \<lparr> API_KEY = key, readAsDataURL = (\<lambda>_. Some (js ''aGk='')),
       analysis_response = (\<lambda>_. Response (Some (js ''{}''))), JSON_parse = (\<lambda>_. Some a),
       Math_random = rnd, rebuttal_response = (\<lambda>_. rb) \<rparr>"

definition sample_report :: "rat \<Rightarrow> risk_level \<Rightarrow> rat \<Rightarrow> rat option \<Rightarrow> js_string option \<Rightarrow> js_string option \<Rightarrow> AnalysisResult" where
  "sample_report score level fusion integrity warning reply =
     \<lparr> riskScore = score, riskLevel = level, summary = (js ''Fear appeal''), flags = [],
       narrativeStrategy = None, emotionalTriggers = None, fusionScore = fusion,
       visualIntegrityScore = integrity, visualIntegrityWarning = warning, rebuttal = reply \<rparr>"

definition sample_text_part :: part where
  "sample_text_part = TextPart ((js ''Analyze this social media caption: '') @ [0x22] @ (js ''Share now'') @ [0x22])"

section \<open>Auxiliary facts\<close>

lemma round_half_even_int: "round_half_even (of_int n) = n"
  by (simp add: round_half_even_def)

lemma bitlen_powi:
  assumes "0 < p"
  shows "2 powi (bitlen p - 1) \<le> (of_int p :: rat)" "(of_int p :: rat) < 2 powi bitlen p"
proof -
  from assms have b: "1 \<le> bitlen p"
    by (simp add: bitlen_alt_def)
  from bitlen_bounds [OF assms] have lo: "2 ^ nat (bitlen p - 1) \<le> p" and hi: "p < 2 ^ nat (bitlen p)"
    by simp_all
  from lo have "(of_int (2 ^ nat (bitlen p - 1)) :: rat) \<le> of_int p"
    by (simp only: of_int_le_iff)
  then show "2 powi (bitlen p - 1) \<le> (of_int p :: rat)"
    using b by (simp add: power_int_nonneg_exp)
  from hi have "(of_int p :: rat) < of_int (2 ^ nat (bitlen p))"
    by (simp only: of_int_less_iff)
  then show "(of_int p :: rat) < 2 powi bitlen p"
    using b by (simp add: power_int_nonneg_exp)
qed

lemma exponent_bounds:
  assumes "x \<noteq> 0"
  shows "2 powi exponent x \<le> \<bar>x\<bar>" "\<bar>x\<bar> < 2 powi (exponent x + 1)"
proof -
  obtain p q where pq: "quotient_of \<bar>x\<bar> = (p, q)"
    by (cases "quotient_of \<bar>x\<bar>")
  then have q: "0 < q" and x: "\<bar>x\<bar> = of_int p / of_int q"
    by (simp_all add: quotient_of_denom_pos quotient_of_div)
  have "0 < \<bar>x\<bar>" using assms by simp
  then have "0 < (of_int p / of_int q :: rat)" by (simp only: x)
  with q have p: "0 < p"
    by (simp add: zero_less_divide_iff)
  let ?e = "bitlen p - bitlen q"
  note pb = bitlen_powi [OF p] and qb = bitlen_powi [OF q]
  have q': "(0::rat) < of_int q" using q by simp
  have "\<bar>x\<bar> < 2 powi bitlen p / of_int q"
    unfolding x using pb(2) q' by (simp add: divide_strict_right_mono)
  also have "\<dots> \<le> 2 powi bitlen p / 2 powi (bitlen q - 1)"
    using qb(1) by (simp add: frac_le)
  also have "\<dots> = 2 powi (?e + 1)"
    by (simp add: power_int_diff power_int_add)
  finally have hi: "\<bar>x\<bar> < 2 powi (?e + 1)" .
  have "2 powi (?e - 1) = 2 powi (bitlen p - 1) / (2 powi bitlen q :: rat)"
    by (simp add: power_int_diff)
  also have "\<dots> \<le> of_int p / 2 powi bitlen q"
    using pb(1) by (simp add: divide_right_mono)
  also have "\<dots> \<le> of_int p / of_int q"
    using qb(2) p q' by (simp add: frac_le)
  finally have lo: "2 powi (?e - 1) \<le> \<bar>x\<bar>"
    by (simp add: x)
  have ex: "exponent x = (if 2 powi ?e \<le> \<bar>x\<bar> then ?e else ?e - 1)"
    by (simp add: exponent_def pq Let_def)
  show "2 powi exponent x \<le> \<bar>x\<bar>"
    using lo by (simp add: ex)
  show "\<bar>x\<bar> < 2 powi (exponent x + 1)"
    using hi by (auto simp: ex)
qed

lemma to_double_dyadic:
  assumes k: "\<bar>k\<bar> < 2 ^ 53" and j: "- 1074 \<le> j"
  shows "to_double (of_int k * 2 powi j) = of_int k * 2 powi j"
proof (cases "k = 0")
  case True
  then show ?thesis
    by (simp add: to_double_def round_half_even_def)
next
  case False
  let ?x = "of_int k * 2 powi j :: rat"
  have nz: "?x \<noteq> 0" using False by simp
  have "2 powi exponent ?x \<le> \<bar>?x\<bar>"
    using nz by (rule exponent_bounds)
  also have "\<bar>?x\<bar> = of_int \<bar>k\<bar> * 2 powi j"
    by (simp add: abs_mult)
  also have "\<dots> < 2 ^ 53 * 2 powi j"
  proof -
    have "(of_int \<bar>k\<bar> :: rat) < of_int (2 ^ 53)"
      using k by (simp only: of_int_less_iff)
    then show ?thesis
      by (simp add: mult_strict_right_mono)
  qed
  also have "\<dots> = 2 powi (53 + j)"
    by (simp add: power_int_add)
  finally have "2 powi exponent ?x < (2 powi (53 + j) :: rat)" .
  then have "exponent ?x < 53 + j"
    using power_int_increasing [of "53 + j" "exponent ?x" "2 :: rat"] by (cases "exponent ?x < 53 + j") simp_all
  with j have le: "max (exponent ?x) (- 1022) - 52 \<le> j"
    by simp
  define s where "s = max (exponent ?x) (- 1022) - 52"
  have s: "s \<le> j" using le by (simp add: s_def)
  have "?x / 2 powi s = of_int k * 2 powi (j - s)"
    by (simp add: power_int_diff)
  also have "\<dots> = of_int (k * 2 ^ nat (j - s))"
    using s by (simp add: power_int_nonneg_exp)
  finally have "round_half_even (?x / 2 powi s) = k * 2 ^ nat (j - s)"
    by (simp only: round_half_even_int)
  then have "to_double ?x = of_int (k * 2 ^ nat (j - s)) * 2 powi s"
    by (simp add: to_double_def quantum_def s_def)
  also have "\<dots> = of_int k * (2 powi (j - s) * 2 powi s)"
    using s by (simp add: power_int_nonneg_exp)
  also have "2 powi (j - s) * 2 powi s = (2 powi j :: rat)"
    by (simp add: power_int_diff)
  finally show ?thesis .
qed

lemma to_double_int: "\<bar>k\<bar> < 2 ^ 53 \<Longrightarrow> to_double (of_int k) = of_int k"
  using to_double_dyadic [of k 0] by simp


lemma is_double_int: "\<bar>k\<bar> < 2 ^ 53 \<Longrightarrow> is_double (of_int k)"
  by (simp add: is_double_def to_double_int)




lemma js_Nil_iff: "js s = [] \<longleftrightarrow> s = []"
  by (simp add: js_def)

lemma js_eq_iff: "js s = js t \<longleftrightarrow> s = t"
  by (simp add: js_def inj_map_eq_map [OF inj_of_char])





lemma trim_empty_iff: "trim s = [] \<longleftrightarrow> blank s"
proof -
  have stop: "dropWhile is_whitespace s \<noteq> [] \<Longrightarrow>
      \<not> (\<forall>c\<in>set (dropWhile is_whitespace s). is_whitespace c)"
    using hd_dropWhile [of is_whitespace s] hd_in_set [of "dropWhile is_whitespace s"] by blast
  have "trim s = [] \<longleftrightarrow> dropWhile is_whitespace (rev (dropWhile is_whitespace s)) = []"
    by (simp add: trim_def)
  also have "\<dots> \<longleftrightarrow> (\<forall>c\<in>set (dropWhile is_whitespace s). is_whitespace c)"
    by simp
  also have "\<dots> \<longleftrightarrow> dropWhile is_whitespace s = []"
    using stop by (metis empty_iff empty_set)
  also have "\<dots> \<longleftrightarrow> blank s"
    by (simp add: blank_def list_all_iff)
  finally show ?thesis .
qed


lemma fuse_None: "fuse a None = as_AnalysisResult a"
  by (simp add: fuse_def)

lemma riskLevel_fuse_Some:
  "riskLevel (fuse a (Some d)) = (if d < 70 \<and> riskScore a > 85 then CRITICAL else riskLevel a)"
  by (simp add: fuse_def as_AnalysisResult_def Let_def)


lemma visualIntegrityScore_fuse_Some: "visualIntegrityScore (fuse a (Some d)) = Some d"
  by (simp add: fuse_def as_AnalysisResult_def Let_def)

lemma visualIntegrityWarning_fuse_Some:
  "visualIntegrityWarning (fuse a (Some d)) =
     (if d < 70 then Some (js ''Potential AI Artifacts Detected'') else None)"
  by (simp add: fuse_def as_AnalysisResult_def Let_def)



lemma fuse_copies:
  "riskScore (fuse a d) = riskScore a"
  "summary (fuse a d) = summary a"
  "flags (fuse a d) = flags a"
  "narrativeStrategy (fuse a d) = narrativeStrategy a"
  "emotionalTriggers (fuse a d) = emotionalTriggers a"
  "rebuttal (fuse a d) = None"
  by (cases d; simp add: fuse_def as_AnalysisResult_def Let_def)+

lemma or_else_priority:
  "or_else s (or_else c (js ''The uploaded media content.'')) = context_by_priority s c"
  by (simp add: or_else_def context_by_priority_def)

lemma rebuttal_stage_eq:
  "rebuttal_stage w caption result =
     (if riskLevel result = CRITICAL
      then (result\<lparr>rebuttal := Some (generateRebuttal w (context_by_priority (summary result) caption))\<rparr>,
            [RebuttalRequest (rebuttal_prompt (context_by_priority (summary result) caption))])
      else (result, []))"
  by (simp add: rebuttal_stage_def Let_def or_else_priority)

lemma rebuttal_stage_keeps:
  "riskLevel (fst (rebuttal_stage w c x)) = riskLevel x"
  "riskScore (fst (rebuttal_stage w c x)) = riskScore x"
  "summary (fst (rebuttal_stage w c x)) = summary x"
  "fusionScore (fst (rebuttal_stage w c x)) = fusionScore x"
  "visualIntegrityScore (fst (rebuttal_stage w c x)) = visualIntegrityScore x"
  "visualIntegrityWarning (fst (rebuttal_stage w c x)) = visualIntegrityWarning x"
  by (simp_all add: rebuttal_stage_eq)

lemma add_file_part_calls:
  "add_file_part w file ps = (x, calls) \<Longrightarrow>
     calls = (case file of None \<Rightarrow> [] | Some f \<Rightarrow> [ReadAsDataURL f])"
  by (auto simp: add_file_part_def split: option.splits)

lemma await_results_Some:
  "await_results w file parts = Some (a, d) \<longleftrightarrow>
     d = map_option (checkDeepfake w) file \<and>
     (\<exists>text. analysis_response w parts = Response (Some text) \<and> text \<noteq> [] \<and> JSON_parse w text = Some a)"
  by (auto simp: await_results_def Let_def split: gen_outcome.splits option.splits)

text \<open>What a successful run went through.\<close>

lemma analyzeContent_Inr:
  assumes "analyzeContent w file caption = (Inr r, tr)"
  shows "\<exists>parts a calls.
           truthy (API_KEY w) \<and>
           add_file_part w file (caption_parts caption) =
             (Inr parts, case file of None \<Rightarrow> [] | Some f \<Rightarrow> [ReadAsDataURL f]) \<and>
           parts \<noteq> [] \<and>
           await_results w file parts = Some (a, map_option (checkDeepfake w) file) \<and>
           rebuttal_stage w caption (fuse a (map_option (checkDeepfake w) file)) = (r, calls) \<and>
           tr = (case file of None \<Rightarrow> [] | Some f \<Rightarrow> [ReadAsDataURL f]) @ started_tasks file parts @ calls"
proof -
  from assms have key: "truthy (API_KEY w)"
    by (auto simp: analyzeContent_def split: if_splits)
  obtain x calls0 where afp: "add_file_part w file (caption_parts caption) = (x, calls0)"
    by (cases "add_file_part w file (caption_parts caption)")
  have calls0: "calls0 = (case file of None \<Rightarrow> [] | Some f \<Rightarrow> [ReadAsDataURL f])"
    using afp by (rule add_file_part_calls)
  from assms key afp obtain parts where x: "x = Inr parts"
    by (cases x) (auto simp: analyzeContent_def)
  from assms key afp x have ne: "parts \<noteq> []"
    by (auto simp: analyzeContent_def split: if_splits)
  from assms key afp x ne obtain calls1
    where tb: "try_block w file caption parts = (Inr r, calls1)" and tr: "tr = calls0 @ calls1"
    by (auto simp: analyzeContent_def split: prod.splits)
  from tb obtain a d where aw: "await_results w file parts = Some (a, d)"
    by (auto simp: try_block_def split: option.splits)
  then have d: "d = map_option (checkDeepfake w) file"
    by (simp add: await_results_Some)
  from tb aw obtain calls
    where rs: "rebuttal_stage w caption (fuse a d) = (r, calls)"
      and c1: "calls1 = started_tasks file parts @ calls"
    by (auto simp: try_block_def split: prod.splits)
  show ?thesis
    using key afp x ne aw d rs c1 tr calls0 by auto
qed

text \<open>
  A successful run returns the fused assessment that the analysis request of its trace
  was answered with.
\<close>

lemma analyzeContent_success:
  assumes run: "analyzeContent w file caption = (Inr r, tr)"
    and sent: "AnalysisRequest parts \<in> set tr"
    and resp: "analysis_response w parts = Response (Some text)"
    and parse: "JSON_parse w text = Some a"
  shows "r = fst (rebuttal_stage w caption (fuse a (map_option (checkDeepfake w) file)))"
proof -
  from analyzeContent_Inr [OF run] obtain parts' a' calls where
    aw: "await_results w file parts' = Some (a', map_option (checkDeepfake w) file)" and
    rs: "rebuttal_stage w caption (fuse a' (map_option (checkDeepfake w) file)) = (r, calls)" and
    tr: "tr = (case file of None \<Rightarrow> [] | Some f \<Rightarrow> [ReadAsDataURL f]) @ started_tasks file parts' @ calls"
    by blast
  have "parts = parts'"
    using sent tr rs
    by (auto simp: started_tasks_def rebuttal_stage_eq split: option.splits if_splits)
  with aw resp parse have "a' = a"
    by (auto simp: await_results_Some)
  with rs show ?thesis by simp
qed

lemma analyzeContent_Inl_no_rebuttal:
  assumes "analyzeContent w file caption = (Inl e, tr)"
  shows "RebuttalRequest p \<notin> set tr"
  using assms
  by (auto simp: analyzeContent_def add_file_part_def try_block_def started_tasks_def
           split: if_splits option.splits prod.splits sum.splits)

section \<open>Sample runs\<close>

lemma to_double_numeral: "numeral n < (2::int) ^ 53 \<Longrightarrow> to_double (numeral n) = numeral n"
  using to_double_int [of "numeral n"] by simp

lemma to_double_325: "to_double (325 / 32) = 325 / 32"
  using to_double_dyadic [of 325 "- 5"] by (simp add: power_int_minus_divide)

lemma to_double_675: "to_double (675 / 64) = 675 / 64"
  using to_double_dyadic [of 675 "- 6"] by (simp add: power_int_minus_divide)

lemma floor_325: "\<lfloor>325 / 32 :: rat\<rfloor> = 10"
  by (simp add: floor_eq_iff)

lemma floor_675: "\<lfloor>675 / 64 :: rat\<rfloor> = 10"
  by (simp add: floor_eq_iff)

lemmas score_defs =
  checkDeepfake_def Math_floor_def stub_world_def js_add_def js_sub_def js_mul_def js_div_def
  to_double_numeral to_double_325 to_double_675 floor_325 floor_675

lemmas run_defs =
  analyzeContent_def sample_assessment_def sample_file_def sample_report_def
  sample_text_part_def truthy_def add_file_part_def caption_parts_def trim_def is_whitespace_def
  fileToBase64_def try_block_def await_results_def Math_round_def fuse_def as_AnalysisResult_def
  rebuttal_stage_def or_else_def generateRebuttal_def started_tasks_def Let_def floor_eq_iff
  js_def score_defs

text \<open>
  Media and caption, contextual score 90, \<^verbatim>\<open>Math.random()\<close> = 0.203125 (integrity 60): the
  level is raised and a rebuttal is requested.
\<close>

lemma sample_run_media:
  "analyzeContent (stub_world (Some (js ''k'')) (13 / 64) (sample_assessment 90 DANGEROUS) (Response (Some (js ''Facts.''))))
       (Some sample_file) (js ''Share now'')
   = (Inr (sample_report 90 CRITICAL 65 (Some 60) (Some (js ''Potential AI Artifacts Detected'')) (Some (js ''Facts.''))),
      [ReadAsDataURL sample_file,
       AnalysisRequest [sample_text_part, InlineData (js ''image/png'') (js ''aGk='')],
       DeepfakeCheck sample_file,
       RebuttalRequest (rebuttal_prompt (js ''Fear appeal''))])"
  by (simp add: run_defs)

text \<open>Caption only, contextual score 90: nothing is fused and no rebuttal is requested.\<close>

lemma sample_run_caption_only:
  "analyzeContent (stub_world (Some (js ''k'')) (13 / 64) (sample_assessment 90 DANGEROUS) (Response (Some (js ''Facts.''))))
       None (js ''Share now'')
   = (Inr (sample_report 90 DANGEROUS 90 None None None), [AnalysisRequest [sample_text_part]])"
  by (simp add: run_defs)

text \<open>
  Caption only, and the analyzer itself reports CRITICAL with a low score: no fusion
  takes place, and the rebuttal is requested all the same.
\<close>

lemma sample_run_analyzer_critical:
  "analyzeContent (stub_world (Some (js ''k'')) (13 / 64) (sample_assessment 10 CRITICAL) (Response (Some (js ''Facts.''))))
       None (js ''Share now'')
   = (Inr (sample_report 10 CRITICAL 10 None None (Some (js ''Facts.''))),
      [AnalysisRequest [sample_text_part], RebuttalRequest (rebuttal_prompt (js ''Fear appeal''))])"
  by (simp add: run_defs)

lemma sample_assessment_sel:
  "riskScore (sample_assessment s l) = s"
  "riskLevel (sample_assessment s l) = l"
  "summary (sample_assessment s l) = (js ''Fear appeal'')"
  by (simp_all add: sample_assessment_def)

section \<open>Claims\<close>

subsection \<open>C1\<close>

text \<open>
  C1.  With an authenticity signal present, the fused risk level is CRITICAL by force
  exactly when the integrity score is below 70 and the contextual risk score is above 85;
  when one of the two conditions fails, the analyzer's level is passed through unchanged.
  This holds for the fusion block, and for the report of every successful run of
  \<^verbatim>\<open>analyzeContent\<close> on a file, where the assessment is the one the analysis request of the
  run was answered with and the integrity score is the one \<^verbatim>\<open>checkDeepfake\<close> returned.
\<close>

theorem escalation_requires_both_signals:
  "riskLevel (fuse a (Some d)) = (if d < 70 \<and> riskScore a > 85 then CRITICAL else riskLevel a)
   \<and> (analyzeContent w (Some f) caption = (Inr r, tr) \<longrightarrow>
        AnalysisRequest parts \<in> set tr \<longrightarrow>
        analysis_response w parts = Response (Some text) \<longrightarrow>
        JSON_parse w text = Some p \<longrightarrow>
        riskLevel r = (if checkDeepfake w f < 70 \<and> riskScore p > 85 then CRITICAL else riskLevel p))"
proof (intro conjI impI)
  show "riskLevel (fuse a (Some d)) = (if d < 70 \<and> riskScore a > 85 then CRITICAL else riskLevel a)"
    by (rule riskLevel_fuse_Some)
next
  assume "analyzeContent w (Some f) caption = (Inr r, tr)" "AnalysisRequest parts \<in> set tr"
    "analysis_response w parts = Response (Some text)" "JSON_parse w text = Some p"
  then have "r = fst (rebuttal_stage w caption (fuse p (map_option (checkDeepfake w) (Some f))))"
    by (rule analyzeContent_success)
  then show "riskLevel r = (if checkDeepfake w f < 70 \<and> riskScore p > 85 then CRITICAL else riskLevel p)"
    by (simp add: rebuttal_stage_keeps riskLevel_fuse_Some)
qed

theorem escalation_requires_both_signals_witness:
  "riskLevel (fuse (sample_assessment 90 DANGEROUS) (Some 60)) = CRITICAL
   \<and> riskLevel (fuse (sample_assessment 80 SUSPICIOUS) (Some 50)) = SUSPICIOUS
   \<and> riskLevel (fuse (sample_assessment 90 DANGEROUS) (Some 75)) = DANGEROUS
   \<and> riskLevel (fuse (sample_assessment 85 CAUTION) (Some 69)) = CAUTION
   \<and> riskLevel (fuse (sample_assessment 86 SAFE) (Some 70)) = SAFE
   \<and> fst (analyzeContent (stub_world (Some (js ''k'')) (13 / 64) (sample_assessment 90 DANGEROUS) (Response (Some (js ''Facts.''))))
            (Some sample_file) (js ''Share now''))
       = Inr (sample_report 90 CRITICAL 65 (Some 60) (Some (js ''Potential AI Artifacts Detected'')) (Some (js ''Facts.'')))
   \<and> riskLevel (sample_report 90 CRITICAL 65 (Some 60) (Some (js ''Potential AI Artifacts Detected'')) (Some (js ''Facts.''))) = CRITICAL"
proof -
  let ?w = "stub_world (Some (js ''k'')) (13 / 64) (sample_assessment 90 DANGEROUS) (Response (Some (js ''Facts.'')))"
  let ?parts = "[sample_text_part, InlineData (js ''image/png'') (js ''aGk='')]"
  have sent: "AnalysisRequest ?parts \<in> set [ReadAsDataURL sample_file, AnalysisRequest ?parts,
      DeepfakeCheck sample_file, RebuttalRequest (rebuttal_prompt (js ''Fear appeal''))]"
    by simp
  have resp: "analysis_response ?w ?parts = Response (Some (js ''{}''))"
    by (simp add: stub_world_def)
  have parse: "JSON_parse ?w (js ''{}'') = Some (sample_assessment 90 DANGEROUS)"
    by (simp add: stub_world_def)
  have score: "checkDeepfake ?w sample_file = 60"
    by (simp add: score_defs)
  have "riskLevel (sample_report 90 CRITICAL 65 (Some 60) (Some (js ''Potential AI Artifacts Detected'')) (Some (js ''Facts.'')))
      = (if checkDeepfake ?w sample_file < 70 \<and> riskScore (sample_assessment 90 DANGEROUS) > 85
         then CRITICAL else riskLevel (sample_assessment 90 DANGEROUS))"
    using escalation_requires_both_signals [THEN conjunct2, rule_format, OF sample_run_media sent resp parse] .
  then have e2e: "riskLevel (sample_report 90 CRITICAL 65 (Some 60) (Some (js ''Potential AI Artifacts Detected'')) (Some (js ''Facts.''))) = CRITICAL"
    by (simp add: score sample_assessment_sel)
  have block: "riskLevel (fuse (sample_assessment s l) (Some d))
      = (if d < 70 \<and> s > 85 then CRITICAL else l)" for s l d
    using escalation_requires_both_signals [THEN conjunct1, of "sample_assessment s l" d]
    by (simp add: sample_assessment_sel)
  show ?thesis
    using e2e by (simp add: block sample_run_media)
qed

subsection \<open>C2\<close>




subsection \<open>C4\<close>

text \<open>
  C4.  Without an authenticity signal the fusion score is the contextual risk score, the
  visual integrity score and warning stay unset, and the risk level is passed through.
  For \<^verbatim>\<open>analyzeContent\<close>: a successful run without a media file returns such a report
  for the assessment that its analysis request was answered with, and never calls the
  deepfake check.
\<close>

theorem no_media_passes_through:
  "fusionScore (fuse a None) = riskScore a
   \<and> visualIntegrityScore (fuse a None) = None
   \<and> visualIntegrityWarning (fuse a None) = None
   \<and> riskLevel (fuse a None) = riskLevel a
   \<and> (analyzeContent w None caption = (Inr r, tr) \<longrightarrow>
        AnalysisRequest parts \<in> set tr \<longrightarrow>
        analysis_response w parts = Response (Some text) \<longrightarrow>
        JSON_parse w text = Some p \<longrightarrow>
        fusionScore r = riskScore p \<and> visualIntegrityScore r = None
        \<and> visualIntegrityWarning r = None \<and> riskLevel r = riskLevel p
        \<and> (\<forall>f. DeepfakeCheck f \<notin> set tr))"
proof (intro conjI impI allI)
  show "fusionScore (fuse a None) = riskScore a" "visualIntegrityScore (fuse a None) = None"
    "visualIntegrityWarning (fuse a None) = None" "riskLevel (fuse a None) = riskLevel a"
    by (simp_all add: fuse_None as_AnalysisResult_def)
next
  assume run: "analyzeContent w None caption = (Inr r, tr)"
    and rest: "AnalysisRequest parts \<in> set tr" "analysis_response w parts = Response (Some text)"
      "JSON_parse w text = Some p"
  from run rest have r: "r = fst (rebuttal_stage w caption (fuse p (map_option (checkDeepfake w) None)))"
    by (rule analyzeContent_success)
  then show "fusionScore r = riskScore p" "visualIntegrityScore r = None"
    "visualIntegrityWarning r = None" "riskLevel r = riskLevel p"
    by (simp_all add: rebuttal_stage_keeps fuse_None as_AnalysisResult_def)
  fix f
  from analyzeContent_Inr [OF run] show "DeepfakeCheck f \<notin> set tr"
    by (auto simp: started_tasks_def rebuttal_stage_eq split: if_splits)
qed

theorem no_media_passes_through_witness:
  "fusionScore (fuse (sample_assessment 90 DANGEROUS) None) = 90
   \<and> riskLevel (fuse (sample_assessment 90 DANGEROUS) None) = DANGEROUS
   \<and> analyzeContent (stub_world (Some (js ''k'')) (13 / 64) (sample_assessment 90 DANGEROUS) (Response (Some (js ''Facts.''))))
        None (js ''Share now'')
       = (Inr (sample_report 90 DANGEROUS 90 None None None), [AnalysisRequest [sample_text_part]])
   \<and> fusionScore (sample_report 90 DANGEROUS 90 None None None) = 90
   \<and> visualIntegrityScore (sample_report 90 DANGEROUS 90 None None None) = None
   \<and> visualIntegrityWarning (sample_report 90 DANGEROUS 90 None None None) = None
   \<and> riskLevel (sample_report 90 DANGEROUS 90 None None None) = DANGEROUS"
proof -
  let ?w = "stub_world (Some (js ''k'')) (13 / 64) (sample_assessment 90 DANGEROUS) (Response (Some (js ''Facts.'')))"
  have sent: "AnalysisRequest [sample_text_part] \<in> set [AnalysisRequest [sample_text_part]]"
    by simp
  have resp: "analysis_response ?w [sample_text_part] = Response (Some (js ''{}''))"
    by (simp add: stub_world_def)
  have parse: "JSON_parse ?w (js ''{}'') = Some (sample_assessment 90 DANGEROUS)"
    by (simp add: stub_world_def)
  note e2e = no_media_passes_through [THEN conjunct2, THEN conjunct2, THEN conjunct2, THEN conjunct2,
      rule_format, OF sample_run_caption_only sent resp parse]
  note block = no_media_passes_through [of "sample_assessment 90 DANGEROUS"]
  show ?thesis
    using e2e block by (simp add: sample_assessment_sel sample_run_caption_only)
qed

subsection \<open>C5\<close>

text \<open>
  C5.  With an authenticity signal present, the visual integrity score of the report is
  the integrity score, and the visual integrity warning is the text
  "Potential AI Artifacts Detected" when the integrity score is below 70 and is unset
  otherwise.  The same holds for the report of every successful run of
  \<^verbatim>\<open>analyzeContent\<close> on a file, with the score that \<^verbatim>\<open>checkDeepfake\<close> returned.
\<close>

theorem visual_integrity_fields:
  "visualIntegrityScore (fuse a (Some d)) = Some d
   \<and> visualIntegrityWarning (fuse a (Some d)) =
       (if d < 70 then Some (js ''Potential AI Artifacts Detected'') else None)
   \<and> (analyzeContent w (Some f) caption = (Inr r, tr) \<longrightarrow>
        visualIntegrityScore r = Some (checkDeepfake w f)
        \<and> visualIntegrityWarning r =
            (if checkDeepfake w f < 70 then Some (js ''Potential AI Artifacts Detected'') else None))"
proof (intro conjI impI)
  show "visualIntegrityScore (fuse a (Some d)) = Some d"
    by (rule visualIntegrityScore_fuse_Some)
  show "visualIntegrityWarning (fuse a (Some d)) =
      (if d < 70 then Some (js ''Potential AI Artifacts Detected'') else None)"
    by (rule visualIntegrityWarning_fuse_Some)
next
  assume run: "analyzeContent w (Some f) caption = (Inr r, tr)"
  from analyzeContent_Inr [OF run] obtain p calls where
    "rebuttal_stage w caption (fuse p (map_option (checkDeepfake w) (Some f))) = (r, calls)"
    by blast
  then have r: "r = fst (rebuttal_stage w caption (fuse p (Some (checkDeepfake w f))))"
    by simp
  show "visualIntegrityScore r = Some (checkDeepfake w f)"
    by (simp add: r rebuttal_stage_keeps visualIntegrityScore_fuse_Some)
  show "visualIntegrityWarning r =
      (if checkDeepfake w f < 70 then Some (js ''Potential AI Artifacts Detected'') else None)"
    by (simp add: r rebuttal_stage_keeps visualIntegrityWarning_fuse_Some)
qed

theorem visual_integrity_fields_witness:
  "visualIntegrityScore (fuse (sample_assessment 90 DANGEROUS) (Some 69)) = Some 69
   \<and> visualIntegrityWarning (fuse (sample_assessment 90 DANGEROUS) (Some 69)) = Some (js ''Potential AI Artifacts Detected'')
   \<and> visualIntegrityScore (fuse (sample_assessment 90 DANGEROUS) (Some 70)) = Some 70
   \<and> visualIntegrityWarning (fuse (sample_assessment 90 DANGEROUS) (Some 70)) = None
   \<and> checkDeepfake (stub_world (Some (js ''k'')) (13 / 64) (sample_assessment 90 DANGEROUS) (Response (Some (js ''Facts.'')))) sample_file = 60
   \<and> visualIntegrityScore (sample_report 90 CRITICAL 65 (Some 60) (Some (js ''Potential AI Artifacts Detected'')) (Some (js ''Facts.''))) = Some 60
   \<and> visualIntegrityWarning (sample_report 90 CRITICAL 65 (Some 60) (Some (js ''Potential AI Artifacts Detected'')) (Some (js ''Facts.'')))
       = Some (js ''Potential AI Artifacts Detected'')"
proof -
  let ?w = "stub_world (Some (js ''k'')) (13 / 64) (sample_assessment 90 DANGEROUS) (Response (Some (js ''Facts.'')))"
  have score: "checkDeepfake ?w sample_file = 60"
    by (simp add: score_defs)
  note e2e = visual_integrity_fields [THEN conjunct2, THEN conjunct2, rule_format, OF sample_run_media]
  note low = visual_integrity_fields [of "sample_assessment 90 DANGEROUS" 69]
  note high = visual_integrity_fields [of "sample_assessment 90 DANGEROUS" 70]
  show ?thesis
    using e2e low high by (simp add: score)
qed

subsection \<open>C3\<close>

text \<open>
  C3.  A run of \<^verbatim>\<open>analyzeContent\<close> sends a rebuttal request if and only if it returns a
  report whose final risk level is CRITICAL.  The request is then made for the context
  chosen by priority (the summary if non-empty, else the caption if non-empty, else
  "The uploaded media content."), and the report's rebuttal field holds what
  \<^verbatim>\<open>generateRebuttal\<close> returned for that context; for any other level the rebuttal field
  is unset.
\<close>

theorem rebuttal_iff_critical:
  assumes "analyzeContent w file caption = (outcome, tr)"
  shows "((\<exists>q. RebuttalRequest q \<in> set tr) \<longleftrightarrow> (\<exists>r. outcome = Inr r \<and> riskLevel r = CRITICAL))
       \<and> (\<forall>r. outcome = Inr r \<longrightarrow>
             (\<forall>q. RebuttalRequest q \<in> set tr \<longleftrightarrow>
                    riskLevel r = CRITICAL \<and> q = rebuttal_prompt (context_by_priority (summary r) caption))
             \<and> rebuttal r =
                 (if riskLevel r = CRITICAL
                  then Some (generateRebuttal w (context_by_priority (summary r) caption))
                  else None))"
proof (cases outcome)
  case (Inl e)
  with assms have "RebuttalRequest q \<notin> set tr" for q
    by (simp add: analyzeContent_Inl_no_rebuttal)
  with Inl show ?thesis by simp
next
  case (Inr r)
  from analyzeContent_Inr [OF assms [unfolded Inr]] obtain parts a calls where
    rs: "rebuttal_stage w caption (fuse a (map_option (checkDeepfake w) file)) = (r, calls)" and
    tr: "tr = (case file of None \<Rightarrow> [] | Some f \<Rightarrow> [ReadAsDataURL f]) @ started_tasks file parts @ calls"
    by blast
  let ?ctx = "context_by_priority (summary r) caption"
  have calls: "calls = (if riskLevel r = CRITICAL then [RebuttalRequest (rebuttal_prompt ?ctx)] else [])"
    using rs by (auto simp: rebuttal_stage_eq split: if_splits)
  have reply: "rebuttal r = (if riskLevel r = CRITICAL then Some (generateRebuttal w ?ctx) else None)"
    using rs by (auto simp: rebuttal_stage_eq fuse_copies split: if_splits)
  have sent: "RebuttalRequest q \<in> set tr \<longleftrightarrow> riskLevel r = CRITICAL \<and> q = rebuttal_prompt ?ctx" for q
    by (auto simp: tr calls started_tasks_def split: option.splits)
  show ?thesis
    using Inr sent reply by auto
qed

theorem rebuttal_iff_critical_witness:
  "(\<exists>q. RebuttalRequest q \<in> set [ReadAsDataURL sample_file,
        AnalysisRequest [sample_text_part, InlineData (js ''image/png'') (js ''aGk='')],
        DeepfakeCheck sample_file, RebuttalRequest (rebuttal_prompt (js ''Fear appeal''))])
   \<and> riskLevel (sample_report 90 CRITICAL 65 (Some 60) (Some (js ''Potential AI Artifacts Detected'')) (Some (js ''Facts.''))) = CRITICAL
   \<and> rebuttal (sample_report 90 CRITICAL 65 (Some 60) (Some (js ''Potential AI Artifacts Detected'')) (Some (js ''Facts.'')))
       = Some (generateRebuttal (stub_world (Some (js ''k'')) (13 / 64) (sample_assessment 90 DANGEROUS) (Response (Some (js ''Facts.''))))
                 (context_by_priority (js ''Fear appeal'') (js ''Share now'')))
   \<and> context_by_priority (js ''Fear appeal'') (js ''Share now'') = (js ''Fear appeal'')
   \<and> context_by_priority [] (js ''Share now'') = (js ''Share now'')
   \<and> context_by_priority [] [] = (js ''The uploaded media content.'')
   \<and> \<not> (\<exists>q. RebuttalRequest q \<in> set [AnalysisRequest [sample_text_part]])
   \<and> riskLevel (sample_report 90 DANGEROUS 90 None None None) \<noteq> CRITICAL
   \<and> rebuttal (sample_report 90 DANGEROUS 90 None None None) = None
   \<and> (\<exists>q. RebuttalRequest q \<in> set [AnalysisRequest [sample_text_part],
                                         RebuttalRequest (rebuttal_prompt (js ''Fear appeal''))])
   \<and> riskLevel (sample_report 10 CRITICAL 10 None None (Some (js ''Facts.''))) = CRITICAL"
proof -
  note direct = rebuttal_iff_critical [OF sample_run_analyzer_critical]
  have l3: "riskLevel (sample_report 10 CRITICAL 10 None None (Some (js ''Facts.''))) = CRITICAL"
    by (simp add: sample_report_def)
  from direct have c5: "\<exists>q. RebuttalRequest q \<in> set [AnalysisRequest [sample_text_part],
      RebuttalRequest (rebuttal_prompt (js ''Fear appeal''))]"
    using l3 by blast
  note critical = rebuttal_iff_critical [OF sample_run_media]
  note calm = rebuttal_iff_critical [OF sample_run_caption_only]
  have s1: "summary (sample_report 90 CRITICAL 65 (Some 60) (Some (js ''Potential AI Artifacts Detected'')) (Some (js ''Facts.''))) = (js ''Fear appeal'')"
    and l1: "riskLevel (sample_report 90 CRITICAL 65 (Some 60) (Some (js ''Potential AI Artifacts Detected'')) (Some (js ''Facts.''))) = CRITICAL"
    and l2: "riskLevel (sample_report 90 DANGEROUS 90 None None None) = DANGEROUS"
    by (simp_all add: sample_report_def)
  from critical have c1: "\<exists>q. RebuttalRequest q \<in> set [ReadAsDataURL sample_file,
        AnalysisRequest [sample_text_part, InlineData (js ''image/png'') (js ''aGk='')],
        DeepfakeCheck sample_file, RebuttalRequest (rebuttal_prompt (js ''Fear appeal''))]"
    using l1 by blast
  from critical have c2: "rebuttal (sample_report 90 CRITICAL 65 (Some 60) (Some (js ''Potential AI Artifacts Detected'')) (Some (js ''Facts.'')))
       = Some (generateRebuttal (stub_world (Some (js ''k'')) (13 / 64) (sample_assessment 90 DANGEROUS) (Response (Some (js ''Facts.''))))
                 (context_by_priority (js ''Fear appeal'') (js ''Share now'')))"
    using l1 s1 by simp
  from calm have c3: "\<not> (\<exists>q. RebuttalRequest q \<in> set [AnalysisRequest [sample_text_part]])"
    using l2 by simp
  from calm have c4: "rebuttal (sample_report 90 DANGEROUS 90 None None None) = None"
    using l2 by simp
  show ?thesis
    using c1 c2 c3 c4 c5 l1 l2 l3 by (simp add: context_by_priority_def js_Nil_iff)
qed

subsection \<open>C6\<close>

text \<open>
  C6.  For every context, a failing rebuttal request never surfaces as an error:
  \<^verbatim>\<open>generateRebuttal\<close> returns the fixed text "Could not generate rebuttal at this time."
  when the request throws and the fixed text "Rebuttal generation unavailable." when the
  response has no text or empty text.  Whether and with what error \<^verbatim>\<open>analyzeContent\<close>
  fails does not depend on how the rebuttal request behaves, and a successful run with a
  CRITICAL level whose rebuttal request failed carries the placeholder in its rebuttal
  field.
\<close>

theorem rebuttal_failure_absorbed:
  "(rebuttal_response w (rebuttal_prompt ctx) = Throws \<longrightarrow>
      generateRebuttal w ctx = (js ''Could not generate rebuttal at this time.''))
   \<and> (rebuttal_response w (rebuttal_prompt ctx) = Response None
        \<or> rebuttal_response w (rebuttal_prompt ctx) = Response (Some []) \<longrightarrow>
      generateRebuttal w ctx = (js ''Rebuttal generation unavailable.''))
   \<and> (fst (analyzeContent (w\<lparr>rebuttal_response := g\<rparr>) file caption) = Inl e
        \<longleftrightarrow> fst (analyzeContent w file caption) = Inl e)
   \<and> (analyzeContent w file caption = (Inr r, tr) \<longrightarrow> riskLevel r = CRITICAL \<longrightarrow>
        rebuttal_response w (rebuttal_prompt (context_by_priority (summary r) caption)) = Throws \<longrightarrow>
        rebuttal r = Some (js ''Could not generate rebuttal at this time.''))
   \<and> (analyzeContent w file caption = (Inr r, tr) \<longrightarrow> riskLevel r = CRITICAL \<longrightarrow>
        rebuttal_response w (rebuttal_prompt (context_by_priority (summary r) caption)) = Response None
        \<or> rebuttal_response w (rebuttal_prompt (context_by_priority (summary r) caption)) = Response (Some []) \<longrightarrow>
        rebuttal r = Some (js ''Rebuttal generation unavailable.''))"
proof -
  have throws: "generateRebuttal w c = (js ''Could not generate rebuttal at this time.'')"
    if "rebuttal_response w (rebuttal_prompt c) = Throws" for c
    using that by (simp add: generateRebuttal_def)
  have empty: "generateRebuttal w c = (js ''Rebuttal generation unavailable.'')"
    if "rebuttal_response w (rebuttal_prompt c) = Response None
        \<or> rebuttal_response w (rebuttal_prompt c) = Response (Some [])" for c
    using that by (auto simp: generateRebuttal_def or_else_def)
  let ?w' = "w\<lparr>rebuttal_response := g\<rparr>"
  have same_check: "checkDeepfake ?w' = checkDeepfake w"
    by (rule ext) (simp add: checkDeepfake_def)
  have same_await: "await_results ?w' file ps = await_results w file ps" for ps
    by (simp add: await_results_def same_check split: gen_outcome.splits option.splits)
  have same_parts: "add_file_part ?w' file ps = add_file_part w file ps" for ps
    by (simp add: add_file_part_def fileToBase64_def split: option.splits)
  have same_try: "fst (try_block ?w' file caption ps) = Inl e \<longleftrightarrow> fst (try_block w file caption ps) = Inl e" for ps
    by (auto simp: try_block_def same_await split: option.splits prod.splits)
  have errors: "fst (analyzeContent ?w' file caption) = Inl e \<longleftrightarrow> fst (analyzeContent w file caption) = Inl e"
    using same_try
    by (auto simp: analyzeContent_def same_parts split: prod.splits sum.splits) (metis fst_conv)+
  have stored: "rebuttal r = Some (generateRebuttal w (context_by_priority (summary r) caption))"
    if "analyzeContent w file caption = (Inr r, tr)" "riskLevel r = CRITICAL"
  proof -
    from analyzeContent_Inr [OF that(1)] obtain a calls where
      "rebuttal_stage w caption (fuse a (map_option (checkDeepfake w) file)) = (r, calls)"
      by blast
    with that(2) show ?thesis
      by (auto simp: rebuttal_stage_eq split: if_splits)
  qed
  show ?thesis
    using throws empty errors stored by presburger
qed


theorem rebuttal_failure_absorbed_witness:
  "generateRebuttal (stub_world (Some (js ''k'')) (13 / 64) (sample_assessment 90 DANGEROUS) Throws) (js ''Fear appeal'')
     = (js ''Could not generate rebuttal at this time.'')
   \<and> generateRebuttal (stub_world (Some (js ''k'')) (13 / 64) (sample_assessment 90 DANGEROUS) (Response None)) (js ''Fear appeal'')
     = (js ''Rebuttal generation unavailable.'')
   \<and> generateRebuttal (stub_world (Some (js ''k'')) (13 / 64) (sample_assessment 90 DANGEROUS) (Response (Some []))) (js ''Fear appeal'')
     = (js ''Rebuttal generation unavailable.'')
   \<and> analyzeContent (stub_world (Some (js ''k'')) (13 / 64) (sample_assessment 90 DANGEROUS) Throws) (Some sample_file) (js ''Share now'')
     = (Inr (sample_report 90 CRITICAL 65 (Some 60) (Some (js ''Potential AI Artifacts Detected''))
               (Some (js ''Could not generate rebuttal at this time.''))),
        [ReadAsDataURL sample_file,
         AnalysisRequest [sample_text_part, InlineData (js ''image/png'') (js ''aGk='')],
         DeepfakeCheck sample_file,
         RebuttalRequest (rebuttal_prompt (js ''Fear appeal''))])
   \<and> rebuttal (sample_report 90 CRITICAL 65 (Some 60) (Some (js ''Potential AI Artifacts Detected''))
               (Some (js ''Could not generate rebuttal at this time.'')))
     = Some (js ''Could not generate rebuttal at this time.'')
   \<and> fst (analyzeContent
            ((stub_world (Some (js ''k'')) (13 / 64) (sample_assessment 90 DANGEROUS) (Response (Some (js ''Facts.''))))
               \<lparr>rebuttal_response := (\<lambda>_. Throws)\<rparr>)
            (Some sample_file) (js ''Share now''))
     \<noteq> Inl (Error (js ''Failed to analyze content. The model may have been blocked or the input format is invalid.''))"
proof -
  let ?wt = "stub_world (Some (js ''k'')) (13 / 64) (sample_assessment 90 DANGEROUS) Throws"
  let ?wn = "stub_world (Some (js ''k'')) (13 / 64) (sample_assessment 90 DANGEROUS) (Response None)"
  let ?we = "stub_world (Some (js ''k'')) (13 / 64) (sample_assessment 90 DANGEROUS) (Response (Some []))"
  let ?w = "stub_world (Some (js ''k'')) (13 / 64) (sample_assessment 90 DANGEROUS) (Response (Some (js ''Facts.'')))"
  let ?r = "sample_report 90 CRITICAL 65 (Some 60) (Some (js ''Potential AI Artifacts Detected''))
               (Some (js ''Could not generate rebuttal at this time.''))"
  have t: "rebuttal_response ?wt p = Throws" for p
    by (simp add: stub_world_def)
  have n: "rebuttal_response ?wn p = Response None" for p
    by (simp add: stub_world_def)
  have e: "rebuttal_response ?we p = Response (Some [])" for p
    by (simp add: stub_world_def)
  have run: "analyzeContent ?wt (Some sample_file) (js ''Share now'')
     = (Inr ?r,
        [ReadAsDataURL sample_file,
         AnalysisRequest [sample_text_part, InlineData (js ''image/png'') (js ''aGk='')],
         DeepfakeCheck sample_file,
         RebuttalRequest (rebuttal_prompt (js ''Fear appeal''))])"
    by (simp add: run_defs)
  have level: "riskLevel ?r = CRITICAL"
    by (simp add: sample_report_def)
  have c1: "generateRebuttal ?wt (js ''Fear appeal'') = (js ''Could not generate rebuttal at this time.'')"
    using rebuttal_failure_absorbed [THEN conjunct1, rule_format, OF t] .
  have c2: "generateRebuttal ?wn (js ''Fear appeal'') = (js ''Rebuttal generation unavailable.'')"
    using rebuttal_failure_absorbed [THEN conjunct2, THEN conjunct1, rule_format, OF disjI1, OF n] .
  have c3: "generateRebuttal ?we (js ''Fear appeal'') = (js ''Rebuttal generation unavailable.'')"
    using rebuttal_failure_absorbed [THEN conjunct2, THEN conjunct1, rule_format, OF disjI2, OF e] .
  have c4: "rebuttal ?r = Some (js ''Could not generate rebuttal at this time.'')"
    using rebuttal_failure_absorbed [THEN conjunct2, THEN conjunct2, THEN conjunct2, THEN conjunct1,
        rule_format, OF run level t] .
  have c5: "fst (analyzeContent (?w\<lparr>rebuttal_response := (\<lambda>_. Throws)\<rparr>) (Some sample_file) (js ''Share now''))
     \<noteq> Inl (Error (js ''Failed to analyze content. The model may have been blocked or the input format is invalid.''))"
  proof
    assume "fst (analyzeContent (?w\<lparr>rebuttal_response := (\<lambda>_. Throws)\<rparr>) (Some sample_file) (js ''Share now''))
      = Inl (Error (js ''Failed to analyze content. The model may have been blocked or the input format is invalid.''))"
    then have "fst (analyzeContent ?w (Some sample_file) (js ''Share now''))
      = Inl (Error (js ''Failed to analyze content. The model may have been blocked or the input format is invalid.''))"
      by (rule rebuttal_failure_absorbed [THEN conjunct2, THEN conjunct2, THEN conjunct1, THEN iffD1])
    then show False
      by (simp add: sample_run_media)
  qed
  show ?thesis
    using c1 c2 c3 c4 c5 run by simp
qed

subsection \<open>C7\<close>

text \<open>
  C7.  A request without a media file whose caption is empty or white space only is
  rejected with an error before any call is made, whatever the world; with an API key
  present the error is the one about missing input.  That error is given to no other
  request: with a key present, a caption-only request goes on to the analysis request
  with its text part and never reads a file or calls the deepfake check, and a request
  with a readable media file goes on to the analysis request and the deepfake check.
\<close>

theorem empty_request_rejected:
  "(blank caption \<longrightarrow> (\<exists>e. analyzeContent w None caption = (Inl e, [])))
   \<and> (truthy (API_KEY w) \<and> blank caption \<longrightarrow>
        analyzeContent w None caption
          = (Inl (Error (js ''Please provide at least a file or a caption to analyze.'')), []))
   \<and> (fst (analyzeContent w file caption)
          = Inl (Error (js ''Please provide at least a file or a caption to analyze.''))
        \<longrightarrow> file = None \<and> blank caption)
   \<and> (truthy (API_KEY w) \<and> \<not> blank caption \<longrightarrow>
        (\<exists>rest. snd (analyzeContent w None caption)
                  = AnalysisRequest
                      [TextPart ((js ''Analyze this social media caption: '') @ [0x22] @ caption @ [0x22])] # rest
               \<and> (\<forall>c\<in>set rest. \<exists>q. c = RebuttalRequest q)))
   \<and> (truthy (API_KEY w) \<and> readAsDataURL w f = Some b \<longrightarrow>
        (\<exists>rest. snd (analyzeContent w (Some f) caption)
                  = ReadAsDataURL f # AnalysisRequest (caption_parts caption @ [InlineData (file_type f) b])
                      # DeepfakeCheck f # rest))"
proof (intro conjI impI)
  assume "blank caption"
  then show "\<exists>e. analyzeContent w None caption = (Inl e, [])"
    by (simp add: analyzeContent_def add_file_part_def caption_parts_def trim_empty_iff)
next
  assume "truthy (API_KEY w) \<and> blank caption"
  then show "analyzeContent w None caption
      = (Inl (Error (js ''Please provide at least a file or a caption to analyze.'')), [])"
    by (simp add: analyzeContent_def add_file_part_def caption_parts_def trim_empty_iff)
next
  assume "fst (analyzeContent w file caption)
      = Inl (Error (js ''Please provide at least a file or a caption to analyze.''))"
  then show "file = None"
    by (auto simp: analyzeContent_def add_file_part_def try_block_def js_eq_iff
             split: if_splits option.splits prod.splits sum.splits)
next
  assume "fst (analyzeContent w file caption)
      = Inl (Error (js ''Please provide at least a file or a caption to analyze.''))"
  then show "blank caption"
    by (auto simp: analyzeContent_def add_file_part_def try_block_def caption_parts_def trim_empty_iff
                   js_eq_iff
             split: if_splits option.splits prod.splits sum.splits)
next
  assume "truthy (API_KEY w) \<and> \<not> blank caption"
  then show "\<exists>rest. snd (analyzeContent w None caption)
                  = AnalysisRequest
                      [TextPart ((js ''Analyze this social media caption: '') @ [0x22] @ caption @ [0x22])] # rest
               \<and> (\<forall>c\<in>set rest. \<exists>q. c = RebuttalRequest q)"
    by (auto simp: analyzeContent_def add_file_part_def caption_parts_def trim_empty_iff
                   try_block_def started_tasks_def rebuttal_stage_eq
             split: option.splits prod.splits)
next
  assume "truthy (API_KEY w) \<and> readAsDataURL w f = Some b"
  then show "\<exists>rest. snd (analyzeContent w (Some f) caption)
                  = ReadAsDataURL f # AnalysisRequest (caption_parts caption @ [InlineData (file_type f) b])
                      # DeepfakeCheck f # rest"
    by (auto simp: analyzeContent_def add_file_part_def fileToBase64_def
                   try_block_def started_tasks_def rebuttal_stage_eq
             split: option.splits prod.splits)
qed


theorem empty_request_rejected_witness:
  "blank [0x20, 0xA0, 0x2028, 0xFEFF, 0x0A]
   \<and> analyzeContent (stub_world (Some (js ''k'')) (13 / 64) (sample_assessment 90 DANGEROUS) (Response (Some (js ''Facts.''))))
        None [0x20, 0xA0, 0x2028, 0xFEFF, 0x0A]
       = (Inl (Error (js ''Please provide at least a file or a caption to analyze.'')), [])
   \<and> analyzeContent (stub_world (Some (js ''k'')) (13 / 64) (sample_assessment 90 DANGEROUS) (Response (Some (js ''Facts.''))))
        None []
       = (Inl (Error (js ''Please provide at least a file or a caption to analyze.'')), [])
   \<and> \<not> blank (js ''Share now'')
   \<and> fst (analyzeContent (stub_world (Some (js ''k'')) (13 / 64) (sample_assessment 90 DANGEROUS) (Response (Some (js ''Facts.''))))
        None (js ''Share now''))
       \<noteq> Inl (Error (js ''Please provide at least a file or a caption to analyze.''))
   \<and> (\<exists>rest. snd (analyzeContent (stub_world (Some (js ''k'')) (13 / 64) (sample_assessment 90 DANGEROUS) (Response (Some (js ''Facts.''))))
                    None (js ''Share now'')) = AnalysisRequest [sample_text_part] # rest)
   \<and> (\<exists>rest. snd (analyzeContent (stub_world (Some (js ''k'')) (13 / 64) (sample_assessment 90 DANGEROUS) (Response (Some (js ''Facts.''))))
                    (Some sample_file) [])
                = ReadAsDataURL sample_file # AnalysisRequest [InlineData (js ''image/png'') (js ''aGk='')]
                    # DeepfakeCheck sample_file # rest)"
proof -
  let ?w = "stub_world (Some (js ''k'')) (13 / 64) (sample_assessment 90 DANGEROUS) (Response (Some (js ''Facts.'')))"
  have key: "truthy (API_KEY ?w)"
    by (simp add: stub_world_def truthy_def js_Nil_iff)
  have b1: "blank [0x20, 0xA0, 0x2028, 0xFEFF, 0x0A]" and b2: "blank []" and b3: "\<not> blank (js ''Share now'')"
    by (simp_all add: blank_def is_whitespace_def js_def)
  have data: "readAsDataURL ?w sample_file = Some (js ''aGk='')"
    by (simp add: stub_world_def)
  note rejects = empty_request_rejected [THEN conjunct2, THEN conjunct1, rule_format]
  have c1: "analyzeContent ?w None [0x20, 0xA0, 0x2028, 0xFEFF, 0x0A]
       = (Inl (Error (js ''Please provide at least a file or a caption to analyze.'')), [])"
    using key b1 by (intro rejects conjI)
  have c2: "analyzeContent ?w None []
       = (Inl (Error (js ''Please provide at least a file or a caption to analyze.'')), [])"
    using key b2 by (intro rejects conjI)
  have c3: "fst (analyzeContent ?w None (js ''Share now''))
       \<noteq> Inl (Error (js ''Please provide at least a file or a caption to analyze.''))"
    using empty_request_rejected [THEN conjunct2, THEN conjunct2, THEN conjunct1, rule_format,
        of ?w None "(js ''Share now'')"] b3
    by blast
  have "\<exists>rest. snd (analyzeContent ?w None (js ''Share now''))
                  = AnalysisRequest
                      [TextPart ((js ''Analyze this social media caption: '') @ [0x22] @ (js ''Share now'') @ [0x22])] # rest
               \<and> (\<forall>c\<in>set rest. \<exists>q. c = RebuttalRequest q)"
    using key b3
    by (intro empty_request_rejected [THEN conjunct2, THEN conjunct2, THEN conjunct2, THEN conjunct1, rule_format] conjI)
  then have c4: "\<exists>rest. snd (analyzeContent ?w None (js ''Share now'')) = AnalysisRequest [sample_text_part] # rest"
    by (auto simp: sample_text_part_def)
  have "\<exists>rest. snd (analyzeContent ?w (Some sample_file) [])
                  = ReadAsDataURL sample_file
                      # AnalysisRequest (caption_parts [] @ [InlineData (file_type sample_file) (js ''aGk='')])
                      # DeepfakeCheck sample_file # rest"
    using key data
    by (intro empty_request_rejected [THEN conjunct2, THEN conjunct2, THEN conjunct2, THEN conjunct2, rule_format] conjI)
  then have c5: "\<exists>rest. snd (analyzeContent ?w (Some sample_file) [])
                = ReadAsDataURL sample_file # AnalysisRequest [InlineData (js ''image/png'') (js ''aGk='')]
                    # DeepfakeCheck sample_file # rest"
    by (simp add: caption_parts_def trim_def sample_file_def)
  show ?thesis
    using b1 b3 c1 c2 c3 c4 c5 by blast
qed

subsection \<open>C10\<close>

text \<open>
  C10.  When the API key is absent (undefined or empty), every request, the all-empty
  one included, is rejected with the error "API Key is missing." and no call is made:
  the key is checked before the input, so the missing key hides the error about missing
  input.
\<close>

theorem missing_api_key_reported_first:
  assumes "API_KEY w = None \<or> API_KEY w = Some []"
  shows "analyzeContent w file caption = (Inl (Error (js ''API Key is missing.'')), [])"
  using assms by (auto simp: analyzeContent_def truthy_def)

theorem missing_api_key_reported_first_witness:
  "API_KEY (stub_world None (13 / 64) (sample_assessment 90 DANGEROUS) (Response (Some (js ''Facts.'')))) = None
   \<and> analyzeContent (stub_world None (13 / 64) (sample_assessment 90 DANGEROUS) (Response (Some (js ''Facts.'')))) None []
       = (Inl (Error (js ''API Key is missing.'')), [])
   \<and> analyzeContent (stub_world None (13 / 64) (sample_assessment 90 DANGEROUS) (Response (Some (js ''Facts.''))))
        (Some sample_file) (js ''Share now'')
       = (Inl (Error (js ''API Key is missing.'')), [])
   \<and> analyzeContent (stub_world (Some (js ''k'')) (13 / 64) (sample_assessment 90 DANGEROUS) (Response (Some (js ''Facts.'')))) None []
       = (Inl (Error (js ''Please provide at least a file or a caption to analyze.'')), [])"
proof -
  let ?w = "stub_world None (13 / 64) (sample_assessment 90 DANGEROUS) (Response (Some (js ''Facts.'')))"
  have key: "API_KEY ?w = None"
    by (simp add: stub_world_def)
  then have absent: "API_KEY ?w = None \<or> API_KEY ?w = Some []" ..
  have c1: "analyzeContent ?w None [] = (Inl (Error (js ''API Key is missing.'')), [])"
    using absent by (rule missing_api_key_reported_first)
  have c2: "analyzeContent ?w (Some sample_file) (js ''Share now'') = (Inl (Error (js ''API Key is missing.'')), [])"
    using absent by (rule missing_api_key_reported_first)
  have c3: "analyzeContent (stub_world (Some (js ''k'')) (13 / 64) (sample_assessment 90 DANGEROUS) (Response (Some (js ''Facts.'')))) None []
       = (Inl (Error (js ''Please provide at least a file or a caption to analyze.'')), [])"
    by (simp add: run_defs)
  show ?thesis
    using key c1 c2 c3 by blast
qed


subsection \<open>C8\<close>



subsection \<open>C9\<close>

text \<open>
  C9 does not hold for every field of the report: the rebuttal text is whatever the
  Rebuttal Generator answers.  Two runs on the same file and caption, answered with the
  same assessment and given the same integrity score, in worlds that differ in the
  generator's answer only, return different reports.
\<close>

theorem fusion_deterministic_counterexample:
  "analyzeContent (stub_world (Some (js ''k'')) (13 / 64) (sample_assessment 90 DANGEROUS) (Response (Some (js ''Facts.''))))
       (Some sample_file) (js ''Share now'')
     = (Inr (sample_report 90 CRITICAL 65 (Some 60) (Some (js ''Potential AI Artifacts Detected'')) (Some (js ''Facts.''))),
        [ReadAsDataURL sample_file,
         AnalysisRequest [sample_text_part, InlineData (js ''image/png'') (js ''aGk='')],
         DeepfakeCheck sample_file,
         RebuttalRequest (rebuttal_prompt (js ''Fear appeal''))])
   \<and> analyzeContent (stub_world (Some (js ''k'')) (13 / 64) (sample_assessment 90 DANGEROUS) (Response (Some (js ''Other.''))))
       (Some sample_file) (js ''Share now'')
     = (Inr (sample_report 90 CRITICAL 65 (Some 60) (Some (js ''Potential AI Artifacts Detected'')) (Some (js ''Other.''))),
        [ReadAsDataURL sample_file,
         AnalysisRequest [sample_text_part, InlineData (js ''image/png'') (js ''aGk='')],
         DeepfakeCheck sample_file,
         RebuttalRequest (rebuttal_prompt (js ''Fear appeal''))])
   \<and> JSON_parse (stub_world (Some (js ''k'')) (13 / 64) (sample_assessment 90 DANGEROUS) (Response (Some (js ''Facts.''))))
         (js ''{}'') = Some (sample_assessment 90 DANGEROUS)
   \<and> JSON_parse (stub_world (Some (js ''k'')) (13 / 64) (sample_assessment 90 DANGEROUS) (Response (Some (js ''Other.''))))
         (js ''{}'') = Some (sample_assessment 90 DANGEROUS)
   \<and> checkDeepfake (stub_world (Some (js ''k'')) (13 / 64) (sample_assessment 90 DANGEROUS) (Response (Some (js ''Facts.''))))
         sample_file = 60
   \<and> checkDeepfake (stub_world (Some (js ''k'')) (13 / 64) (sample_assessment 90 DANGEROUS) (Response (Some (js ''Other.''))))
         sample_file = 60
   \<and> sample_report 90 CRITICAL 65 (Some 60) (Some (js ''Potential AI Artifacts Detected'')) (Some (js ''Facts.''))
       \<noteq> sample_report 90 CRITICAL 65 (Some 60) (Some (js ''Potential AI Artifacts Detected'')) (Some (js ''Other.''))"
proof -
  have run2: "analyzeContent (stub_world (Some (js ''k'')) (13 / 64) (sample_assessment 90 DANGEROUS) (Response (Some (js ''Other.''))))
       (Some sample_file) (js ''Share now'')
     = (Inr (sample_report 90 CRITICAL 65 (Some 60) (Some (js ''Potential AI Artifacts Detected'')) (Some (js ''Other.''))),
        [ReadAsDataURL sample_file,
         AnalysisRequest [sample_text_part, InlineData (js ''image/png'') (js ''aGk='')],
         DeepfakeCheck sample_file,
         RebuttalRequest (rebuttal_prompt (js ''Fear appeal''))])"
    by (simp add: run_defs)
  have parse: "JSON_parse (stub_world k x a rb) t = Some a" for k x a rb t
    by (simp add: stub_world_def)
  have score: "checkDeepfake (stub_world k (13 / 64) a rb) f = 60" for k a rb f
    by (simp add: score_defs)
  have differ: "sample_report 90 CRITICAL 65 (Some 60) (Some (js ''Potential AI Artifacts Detected'')) (Some (js ''Facts.''))
       \<noteq> sample_report 90 CRITICAL 65 (Some 60) (Some (js ''Potential AI Artifacts Detected'')) (Some (js ''Other.''))"
    by (simp add: sample_report_def js_eq_iff)
  show ?thesis
    using sample_run_media run2 differ by (simp only: parse score) simp
qed

text \<open>
  C9, amended.  The report is a function of the assessment, the optional integrity score,
  the caption and the text the Rebuttal Generator returns.  Take two successful runs of
  \<^verbatim>\<open>analyzeContent\<close> with the same caption, in any two worlds and on any two files,
  whose analysis requests were answered with the same assessment and whose integrity
  scores (or their absence) agree.  Their reports agree in every field other than the
  rebuttal, both being the fusion of that assessment and score; a rebuttal is present in
  both or in neither; and the reports are identical in every field when the final level
  is not CRITICAL or when the rebuttal generator answers alike in both worlds.
\<close>

theorem fusion_deterministic:
  assumes "analyzeContent w1 f1 caption = (Inr r1, t1)"
    and "AnalysisRequest p1 \<in> set t1" "analysis_response w1 p1 = Response (Some x1)"
      "JSON_parse w1 x1 = Some a"
    and "analyzeContent w2 f2 caption = (Inr r2, t2)"
    and "AnalysisRequest p2 \<in> set t2" "analysis_response w2 p2 = Response (Some x2)"
      "JSON_parse w2 x2 = Some a"
    and "map_option (checkDeepfake w1) f1 = map_option (checkDeepfake w2) f2"
  shows "r1\<lparr>rebuttal := None\<rparr> = r2\<lparr>rebuttal := None\<rparr>
       \<and> r1\<lparr>rebuttal := None\<rparr> = fuse a (map_option (checkDeepfake w1) f1)
       \<and> (rebuttal r1 = None \<longleftrightarrow> rebuttal r2 = None)
       \<and> (riskLevel r1 \<noteq> CRITICAL \<longrightarrow> r1 = r2)
       \<and> ((\<forall>c. generateRebuttal w1 c = generateRebuttal w2 c) \<longrightarrow> r1 = r2)"
proof -
  let ?x = "fuse a (map_option (checkDeepfake w1) f1)"
  have r1: "r1 = fst (rebuttal_stage w1 caption ?x)"
    using assms(1-4) by (rule analyzeContent_success)
  have "r2 = fst (rebuttal_stage w2 caption (fuse a (map_option (checkDeepfake w2) f2)))"
    using assms(5-8) by (rule analyzeContent_success)
  then have r2: "r2 = fst (rebuttal_stage w2 caption ?x)"
    by (simp add: assms(9))
  have unset: "?x\<lparr>rebuttal := None\<rparr> = ?x"
    by (simp add: fuse_copies)
  show ?thesis
    using unset by (auto simp: r1 r2 rebuttal_stage_eq)
qed


theorem fusion_deterministic_witness:
  "analyzeContent (stub_world (Some (js ''another key'')) (27 / 128) (sample_assessment 90 DANGEROUS) (Response (Some (js ''Other.''))))
       (Some (sample_upload 4096 (js ''video/mp4''))) (js ''Share now'')
     = (Inr (sample_report 90 CRITICAL 65 (Some 60) (Some (js ''Potential AI Artifacts Detected'')) (Some (js ''Other.''))),
        [ReadAsDataURL (sample_upload 4096 (js ''video/mp4'')),
         AnalysisRequest [sample_text_part, InlineData (js ''video/mp4'') (js ''aGk='')],
         DeepfakeCheck (sample_upload 4096 (js ''video/mp4'')),
         RebuttalRequest (rebuttal_prompt (js ''Fear appeal''))])
   \<and> (sample_report 90 CRITICAL 65 (Some 60) (Some (js ''Potential AI Artifacts Detected'')) (Some (js ''Facts.'')))
         \<lparr>rebuttal := None\<rparr>
       = (sample_report 90 CRITICAL 65 (Some 60) (Some (js ''Potential AI Artifacts Detected'')) (Some (js ''Other.'')))
         \<lparr>rebuttal := None\<rparr>
   \<and> (sample_report 90 CRITICAL 65 (Some 60) (Some (js ''Potential AI Artifacts Detected'')) (Some (js ''Facts.'')))
         \<lparr>rebuttal := None\<rparr>
       = fuse (sample_assessment 90 DANGEROUS) (Some 60)
   \<and> (rebuttal (sample_report 90 CRITICAL 65 (Some 60) (Some (js ''Potential AI Artifacts Detected'')) (Some (js ''Facts.''))) = None
        \<longleftrightarrow> rebuttal (sample_report 90 CRITICAL 65 (Some 60) (Some (js ''Potential AI Artifacts Detected'')) (Some (js ''Other.''))) = None)"
proof -
  let ?w1 = "stub_world (Some (js ''k'')) (13 / 64) (sample_assessment 90 DANGEROUS) (Response (Some (js ''Facts.'')))"
  let ?w2 = "stub_world (Some (js ''another key'')) (27 / 128) (sample_assessment 90 DANGEROUS) (Response (Some (js ''Other.'')))"
  let ?f2 = "sample_upload 4096 (js ''video/mp4'')"
  let ?p1 = "[sample_text_part, InlineData (js ''image/png'') (js ''aGk='')]"
  let ?p2 = "[sample_text_part, InlineData (js ''video/mp4'') (js ''aGk='')]"
  let ?t1 = "[ReadAsDataURL sample_file, AnalysisRequest ?p1, DeepfakeCheck sample_file,
      RebuttalRequest (rebuttal_prompt (js ''Fear appeal''))]"
  let ?t2 = "[ReadAsDataURL ?f2, AnalysisRequest ?p2, DeepfakeCheck ?f2,
      RebuttalRequest (rebuttal_prompt (js ''Fear appeal''))]"
  have run2: "analyzeContent ?w2 (Some ?f2) (js ''Share now'')
     = (Inr (sample_report 90 CRITICAL 65 (Some 60) (Some (js ''Potential AI Artifacts Detected'')) (Some (js ''Other.''))), ?t2)"
    by (simp add: run_defs sample_upload_def)
  have sent1: "AnalysisRequest ?p1 \<in> set ?t1" and sent2: "AnalysisRequest ?p2 \<in> set ?t2"
    by simp_all
  have resp1: "analysis_response ?w1 ?p1 = Response (Some (js ''{}''))"
    and resp2: "analysis_response ?w2 ?p2 = Response (Some (js ''{}''))"
    by (simp_all add: stub_world_def)
  have parse1: "JSON_parse ?w1 (js ''{}'') = Some (sample_assessment 90 DANGEROUS)"
    and parse2: "JSON_parse ?w2 (js ''{}'') = Some (sample_assessment 90 DANGEROUS)"
    by (simp_all add: stub_world_def)
  have score1: "checkDeepfake ?w1 sample_file = 60" and score2: "checkDeepfake ?w2 ?f2 = 60"
    by (simp_all add: score_defs)
  have scores: "map_option (checkDeepfake ?w1) (Some sample_file) = map_option (checkDeepfake ?w2) (Some ?f2)"
    by (simp add: score1 score2)
  have s60: "map_option (checkDeepfake ?w1) (Some sample_file) = Some 60"
    by (simp add: score1)
  note same = fusion_deterministic [OF sample_run_media sent1 resp1 parse1 run2 sent2 resp2 parse2 scores,
      unfolded s60]
  show ?thesis
    using same run2 by blast
qed


end
